theory Spec2Isabelle
  imports Main "HOL-Library.Monad_Syntax"
begin

section \<open>JavaScript strings\<close>

text \<open>
  A string is the list of its code units; a \<open>char\<close> stands for a code unit. Three
  built-ins of the engine depend on the Unicode tables: \<open>String.prototype.toLowerCase\<close>,
  \<open>String.prototype.trim\<close> and the class \<open>\s\<close> of regular expressions. They are not
  defined here. A function of the program that calls one of them takes it as an argument,
  under the names \<open>toLowerCase\<close>, \<open>trim\<close> and \<open>is_space\<close>, and what is proved of the
  function holds whatever the built-in does.
\<close>

text \<open>\<open>hay.includes(needle)\<close>: the needle starts at some position of the hay.\<close>

fun includes_str :: "string \<Rightarrow> string \<Rightarrow> bool" where
  "includes_str [] needle = (needle = [])"
| "includes_str (c # cs) needle = (take (length needle) (c # cs) = needle \<or> includes_str cs needle)"

text \<open>\<open>xs.join(sep)\<close> on an array of strings.\<close>

fun join :: "string \<Rightarrow> string list \<Rightarrow> string" where
  "join sep [] = []"
| "join sep [x] = x"
| "join sep (x # y # ys) = x @ sep @ join sep (y # ys)"

text \<open>
  \<open>input.split(/[\,\n]/g)\<close>: a cut at every comma and every line feed; two separators in a
  row, or one at either end, give an empty piece, and the empty input gives one empty piece.
\<close>

fun split_comma_nl :: "string \<Rightarrow> string \<Rightarrow> string list" where
  "split_comma_nl cur [] = [cur]"
| "split_comma_nl cur (c # cs) =
     (if c = CHR '','' \<or> c = CHR 0x0A then cur # split_comma_nl [] cs
      else split_comma_nl (cur @ [c]) cs)"

text \<open>
  \<open>promptText.split(/\s+/)\<close>: a cut at every maximal run of code units of the class
  \<open>\s\<close>, which is the argument \<open>is_space\<close>; a run at either end gives an empty piece
  there, and the empty input gives one empty piece.
\<close>

fun split_ws_run :: "(char \<Rightarrow> bool) \<Rightarrow> bool \<Rightarrow> string \<Rightarrow> string \<Rightarrow> string list" where
  "split_ws_run is_space in_run cur [] = [cur]"
| "split_ws_run is_space in_run cur (c # cs) =
     (if is_space c then (if in_run then split_ws_run is_space True cur cs
                          else cur # split_ws_run is_space True [] cs)
      else split_ws_run is_space False (cur @ [c]) cs)"

definition split_ws :: "(char \<Rightarrow> bool) \<Rightarrow> string \<Rightarrow> string list" where
  "split_ws is_space s = split_ws_run is_space False [] s"

section \<open>JSON values and the coercions of the language\<close>

text \<open>
  What \<open>JSON.parse\<close> returns. A number is kept as the text \<open>String\<close> renders it to, which
  is all the code observes of it besides its truthiness: zero renders to \<open>0\<close>, and the
  numbers that are not finite render to \<open>Infinity\<close>, \<open>-Infinity\<close> and \<open>NaN\<close>. An object
  is its own properties in their order; should a list name a property twice, the later
  member counts.
\<close>

datatype json =
    JNull
  | JBool bool
  | JNum string
  | JStr string
  | JArr "json list"
  | JObj "(string \<times> json) list"

fun truthy :: "json \<Rightarrow> bool" where
  "truthy JNull = False"
| "truthy (JBool b) = b"
| "truthy (JNum s) = (s \<noteq> ''0'')"
| "truthy (JStr s) = (s \<noteq> [])"
| "truthy (JArr xs) = True"
| "truthy (JObj kvs) = True"

text \<open>\<open>x.k\<close> on a value other than \<open>null\<close>; \<open>None\<close> is \<open>undefined\<close>.\<close>

fun js_get :: "json \<Rightarrow> string \<Rightarrow> json option" where
  "js_get (JObj kvs) k = map_of (rev kvs) k"
| "js_get x k = None"

text \<open>\<open>v || d\<close>.\<close>

fun js_or :: "json option \<Rightarrow> json \<Rightarrow> json" where
  "js_or None d = d"
| "js_or (Some v) d = (if truthy v then v else d)"

text \<open>
  \<open>String(v)\<close>, also what a template literal does to \<open>v\<close>. An array is its elements joined
  by commas, \<open>null\<close> elements as the empty string. An object renders to \<open>[object Object]\<close>
  unless it has a member named \<open>toString\<close>, which hides the inherited method and is not
  callable: then \<open>String\<close> throws a TypeError, the result \<open>None\<close> here.
\<close>

fun js_String :: "json \<Rightarrow> string option" where
  "js_String JNull = Some ''null''"
| "js_String (JBool b) = Some (if b then ''true'' else ''false'')"
| "js_String (JNum s) = Some s"
| "js_String (JStr s) = Some s"
| "js_String (JArr xs) =
     map_option (join '','')
       (those (map (\<lambda>e. if e = JNull then Some [] else js_String e) xs))"
| "js_String (JObj kvs) =
     (if ''toString'' \<in> fst ` set kvs then None else Some ''[object Object]'')"

section \<open>The gallery of the studio client\<close>

text \<open>
  \<open>GalleryItem\<close>. The fields \<open>action\<close> and \<open>size\<close> are declared as unions of string
  literals, but the import stores what the file holds under an unchecked cast, so they are
  JSON values here; a submission stores strings. \<open>tags\<close> is optional.
\<close>

record GalleryItem =
  item_id :: string
  createdAt :: string
  prompt :: string
  action :: json
  item_size :: json
  model :: string
  b64 :: string
  tags :: "string list option"

text \<open>
  The state of \<open>StudioClient\<close> that the gallery operations read and write: the gallery
  and the error message. Every update of the gallery also hands the new list to
  \<open>saveGalleryToStorage\<close>, which writes it to local storage and ignores a failure; that
  copy is read once, by \<open>loadGalleryFromStorage\<close> when the component mounts, and is not
  part of the state here.
\<close>

record studio =
  gallery :: "GalleryItem list"
  error :: "string option"

definition addToGallery :: "GalleryItem \<Rightarrow> studio \<Rightarrow> studio" where
  "addToGallery item st = st\<lparr>gallery := take 100 (item # gallery st)\<rparr>"

definition deleteFromGallery :: "string \<Rightarrow> studio \<Rightarrow> studio" where
  "deleteFromGallery i st = st\<lparr>gallery := filter (\<lambda>g. item_id g \<noteq> i) (gallery st)\<rparr>"

text \<open>The handler of the "Clear all" button.\<close>

definition clearGallery :: "studio \<Rightarrow> studio" where
  "clearGallery st = st\<lparr>gallery := []\<rparr>"

definition parseTags :: "(string \<Rightarrow> string) \<Rightarrow> string \<Rightarrow> string list" where
  "parseTags trim input = take 20 (filter (\<lambda>t. length t > 0) (map trim (split_comma_nl [] input)))"


subsection \<open>Search\<close>

text \<open>
  The callback of \<open>filteredGallery\<close>. The template literal renders \<open>action\<close> and \<open>size\<close>
  with \<open>String\<close>; \<open>None\<close> is the TypeError of a value that does not render.
\<close>

definition item_matches :: "(string \<Rightarrow> string) \<Rightarrow> string \<Rightarrow> GalleryItem \<Rightarrow> bool option" where
  "item_matches toLowerCase q item =
     do {
       a \<leftarrow> js_String (action item);
       s \<leftarrow> js_String (item_size item);
       let txt = toLowerCase (prompt item @ '' '' @ model item @ '' '' @ a @ '' '' @ s);
       let tagStr = toLowerCase (join '' '' (case tags item of None \<Rightarrow> [] | Some ts \<Rightarrow> ts));
       Some (includes_str txt q \<or> includes_str tagStr q)
     }"

text \<open>\<open>xs.filter(p)\<close> for a callback that may throw: the first throw ends the filter.\<close>

fun filter_throwing :: "('a \<Rightarrow> bool option) \<Rightarrow> 'a list \<Rightarrow> 'a list option" where
  "filter_throwing p [] = Some []"
| "filter_throwing p (x # xs) =
     (case p x of
        None \<Rightarrow> None
      | Some keep \<Rightarrow> map_option (\<lambda>rest. if keep then x # rest else rest) (filter_throwing p xs))"

definition filteredGallery :: "(string \<Rightarrow> string) \<Rightarrow> (string \<Rightarrow> string) \<Rightarrow> string \<Rightarrow> studio \<Rightarrow> GalleryItem list option" where
  "filteredGallery toLowerCase trim searchQuery st =
     (let q = toLowerCase (trim searchQuery)
      in if q = [] then Some (gallery st)
         else filter_throwing (item_matches toLowerCase q) (gallery st))"

subsection \<open>Export and import of the gallery as JSON\<close>

text \<open>
  \<open>exportGalleryAsJSON\<close> downloads the text \<open>JSON.stringify(gallery, null, 2)\<close>. The model
  gives the JSON value that text denotes, which is what \<open>JSON.parse\<close> returns for it.

  \<open>stringify_value v\<close> is that value for a value \<open>v\<close> inside the gallery:
  \<open>JSON.stringify\<close> writes a number that is not finite as \<open>null\<close>, and every other value
  so that it is read back as it was.
\<close>

fun stringify_value :: "json \<Rightarrow> json" where
  "stringify_value JNull = JNull"
| "stringify_value (JBool b) = JBool b"
| "stringify_value (JNum s) =
     (if s = ''Infinity'' \<or> s = ''-Infinity'' \<or> s = ''NaN'' then JNull else JNum s)"
| "stringify_value (JStr s) = JStr s"
| "stringify_value (JArr xs) = JArr (map stringify_value xs)"
| "stringify_value (JObj kvs) = JObj (map (\<lambda>(k, v). (k, stringify_value v)) kvs)"

text \<open>An item of the export: an object with a member per field that is not \<open>undefined\<close>.\<close>

definition item_to_json :: "GalleryItem \<Rightarrow> json" where
  "item_to_json item =
     JObj ([(''id'', JStr (item_id item)),
            (''createdAt'', JStr (createdAt item)),
            (''prompt'', JStr (prompt item)),
            (''action'', stringify_value (action item)),
            (''size'', stringify_value (item_size item)),
            (''model'', JStr (model item)),
            (''b64'', JStr (b64 item))]
           @ (case tags item of None \<Rightarrow> [] | Some ts \<Rightarrow> [(''tags'', JArr (map JStr ts))]))"

definition exportGalleryAsJSON :: "studio \<Rightarrow> json" where
  "exportGalleryAsJSON st = JArr (map item_to_json (gallery st))"

text \<open>
  A thrown value: a TypeError of the engine, or whatever a library call or the code itself
  throws, with its \<open>message\<close> if it has one. The wording of the engine's TypeError is not
  modelled; \<open>type_error_text\<close> stands for it.
\<close>

datatype js_error = TypeError | Thrown "string option"

definition type_error_text :: string where
  "type_error_text = ''TypeError''"

text \<open>\<open>err?.message || d\<close>.\<close>

fun message_or :: "js_error \<Rightarrow> string \<Rightarrow> string" where
  "message_or TypeError d = type_error_text"
| "message_or (Thrown None) d = d"
| "message_or (Thrown (Some m)) d = (if m \<noteq> [] then m else d)"

text \<open>
  The callback of \<open>arr.map\<close> in \<open>handleImportFile\<close>, for one entry \<open>x\<close>. \<open>new_id\<close> is
  what \<open>generateId()\<close> returns and \<open>now\<close> what \<open>new Date().toISOString()\<close> returns if the
  entry needs them. Reading a field of \<open>null\<close> throws, and so does \<open>String\<close> of a value
  that does not render: the result is \<open>None\<close>.
\<close>

definition import_entry :: "string \<Rightarrow> string \<Rightarrow> json \<Rightarrow> GalleryItem option" where
  "import_entry new_id now x =
     (if x = JNull then None
      else do {
        i \<leftarrow> js_String (js_or (js_get x ''id'') (JStr new_id));
        c \<leftarrow> js_String (js_or (js_get x ''createdAt'') (JStr now));
        p \<leftarrow> js_String (js_or (js_get x ''prompt'') (JStr []));
        m \<leftarrow> js_String (js_or (js_get x ''model'') (JStr ''gpt-image-1''));
        b \<leftarrow> js_String (js_or (js_get x ''b64'') (JStr []));
        ts \<leftarrow> (case js_get x ''tags'' of
                 Some (JArr ys) \<Rightarrow> those (map js_String ys)
               | _ \<Rightarrow> Some []);
        Some \<lparr>item_id = i, createdAt = c, prompt = p,
              action = js_or (js_get x ''action'') (JStr ''generate''),
              item_size = js_or (js_get x ''size'') (JStr ''1024x1024''),
              model = m, b64 = b, tags = Some ts\<rparr>
      })"

text \<open>
  \<open>incoming\<close>: the entries mapped, then those with an image kept. \<open>generateId\<close> and
  \<open>now\<close> give the generated id and the clock reading for the entry at each index.
\<close>

definition incoming :: "(nat \<Rightarrow> string) \<Rightarrow> (nat \<Rightarrow> string) \<Rightarrow> json list \<Rightarrow> GalleryItem list option" where
  "incoming generateId now arr =
     map_option (filter (\<lambda>x. length (b64 x) > 0))
       (those (map (\<lambda>(n, x). import_entry (generateId n) (now n) x) (enumerate 0 arr)))"

text \<open>The updater handed to \<open>setGallery\<close>.\<close>

definition merged :: "GalleryItem list \<Rightarrow> GalleryItem list \<Rightarrow> GalleryItem list" where
  "merged inc prev = filter (\<lambda>i. item_id i \<notin> set (map item_id prev)) inc @ prev"

text \<open>
  \<open>handleImportFile\<close>. The argument \<open>file\<close> is \<open>None\<close> when no file was chosen, and
  otherwise what \<open>JSON.parse(await file.text())\<close> does: throw, or return a value.
\<close>

definition import_result :: "(nat \<Rightarrow> string) \<Rightarrow> (nat \<Rightarrow> string) \<Rightarrow> js_error + json \<Rightarrow> js_error + GalleryItem list" where
  "import_result generateId now parsed =
     (case parsed of
        Inl e \<Rightarrow> Inl e
      | Inr (JArr arr) \<Rightarrow>
          (case incoming generateId now arr of None \<Rightarrow> Inl TypeError | Some inc \<Rightarrow> Inr inc)
      | Inr _ \<Rightarrow> Inl (Thrown (Some ''Invalid JSON'')))"

definition handleImportFile :: "(nat \<Rightarrow> string) \<Rightarrow> (nat \<Rightarrow> string) \<Rightarrow> (js_error + json) option \<Rightarrow> studio \<Rightarrow> studio" where
  "handleImportFile generateId now file st =
     (case file of
        None \<Rightarrow> st
      | Some parsed \<Rightarrow>
          (case import_result generateId now parsed of
             Inl e \<Rightarrow> st\<lparr>error := Some (message_or e ''Failed to import'')\<rparr>
           | Inr inc \<Rightarrow> st\<lparr>gallery := merged inc (gallery st)\<rparr>))"

subsection \<open>The overlay of an exported image\<close>







section \<open>The request proxy: \<open>POST /api/images\<close>\<close>

text \<open>A field of a multipart form is a string or a file (its bytes).\<close>

datatype form_value = FText string | FFile string

text \<open>A parameter handed to the image API: taken from a form or from a JSON body.\<close>

datatype arg = Form form_value | Json json

text \<open>
  The three operations of the image API with their parameters:
  \<open>generate {model, prompt, size, response_format?}\<close>,
  \<open>edit {model, prompt, image, mask?, size, response_format?}\<close>,
  \<open>createVariation {model, image, size, response_format}\<close>.
\<close>

datatype api_call =
    Generate arg arg arg "string option"
  | Edit arg arg "string list" "string option" arg "string option"
  | CreateVariation arg string arg string

text \<open>
  A call throws or returns a response; of the response the route reads \<open>data\<close>, which may
  be absent, and of each entry \<open>b64_json\<close>, which may be absent.
\<close>

datatype api_result = Throws js_error | Returns "string option list option"

record request =
  content_type :: "string option"
  req_formData :: "js_error + (string \<Rightarrow> form_value option)"
  req_json :: "js_error + json"

record response =
  status :: nat
  resp_body :: "(string \<times> string) list"
  headers :: "(string \<times> string) list"

definition getOpenAI :: "string option \<Rightarrow> js_error + string" where
  "getOpenAI apiKey =
     (case apiKey of
        None \<Rightarrow> Inl (Thrown (Some ''OPENAI_API_KEY is not set''))
      | Some k \<Rightarrow> if k = [] then Inl (Thrown (Some ''OPENAI_API_KEY is not set'')) else Inr k)"

definition error_response :: "nat \<Rightarrow> string \<Rightarrow> response" where
  "error_response st msg = \<lparr>status = st, resp_body = [(''error'', msg)], headers = []\<rparr>"

definition b64_response :: "string \<Rightarrow> response" where
  "b64_response b =
     \<lparr>status = 200, resp_body = [(''b64'', b)], headers = [(''content-type'', ''application/json'')]\<rparr>"

text \<open>The \<open>catch\<close> clause of \<open>POST\<close>, for an exception thrown before any call.\<close>

definition caught :: "js_error \<Rightarrow> response \<times> api_call list" where
  "caught e = (error_response 500 (message_or e ''Unknown error''), [])"

text \<open>\<open>res.data?.[0]?.b64_json\<close>, \<open>None\<close> when \<open>!b64\<close>.\<close>

fun first_b64 :: "string option list option \<Rightarrow> string option" where
  "first_b64 (Some (Some b # rest)) = (if b \<noteq> [] then Some b else None)"
| "first_b64 d = None"

text \<open>
  The tail that ends each of the four branches: make the call, read the first image,
  answer. The second component is the list of calls made to the image API.
\<close>

definition respond :: "(api_call \<Rightarrow> api_result) \<Rightarrow> api_call \<Rightarrow> response \<times> api_call list" where
  "respond api call =
     (case api call of
        Throws e \<Rightarrow> (error_response 500 (message_or e ''Unknown error''), [call])
      | Returns d \<Rightarrow>
          (case first_b64 d of
             None \<Rightarrow> (error_response 500 ''no image returned'', [call])
           | Some b \<Rightarrow> (b64_response b, [call])))"

text \<open>\<open>(form.get(k) as string) || d\<close>.\<close>

definition form_or :: "(string \<Rightarrow> form_value option) \<Rightarrow> string \<Rightarrow> string \<Rightarrow> form_value" where
  "form_or form k d =
     (case form k of
        None \<Rightarrow> FText d
      | Some (FText s) \<Rightarrow> if s = [] then FText d else FText s
      | Some (FFile f) \<Rightarrow> FFile f)"

fun form_String :: "form_value \<Rightarrow> string" where
  "form_String (FText s) = s"
| "form_String (FFile f) = ''[object File]''"

definition response_format_for :: "string \<Rightarrow> string option" where
  "response_format_for model_text =
     (if includes_str model_text ''dall-e'' then Some ''b64_json'' else None)"

definition post_form :: "(api_call \<Rightarrow> api_result) \<Rightarrow> (string \<Rightarrow> form_value option) \<Rightarrow> response \<times> api_call list" where
  "post_form api form =
     (let action = form_or form ''action'' ''generate'';
          prompt = form_or form ''prompt'' [];
          size = form_or form ''size'' ''1024x1024'';
          model = form_or form ''model'' ''gpt-image-1''
      in if action = FText ''edit'' then
           (case form ''image'' of
              Some (FFile imageFile) \<Rightarrow>
                respond api
                  (Edit (Form model) (Form prompt) [imageFile]
                     (case form ''mask'' of Some (FFile maskFile) \<Rightarrow> Some maskFile | _ \<Rightarrow> None)
                     (Form size) (response_format_for (form_String model)))
            | _ \<Rightarrow> (error_response 400 ''image file is required for edit'', []))
         else if action = FText ''variation'' then
           (case form ''image'' of
              Some (FFile imageFile) \<Rightarrow>
                respond api
                  (CreateVariation
                     (if includes_str (form_String model) ''dall-e'' then Form model
                      else Form (FText ''dall-e-2''))
                     imageFile (Form size) ''b64_json'')
            | _ \<Rightarrow> (error_response 400 ''image file is required for variation'', []))
         else respond api
                (Generate (Form model) (Form prompt) (Form size)
                   (response_format_for (form_String model))))"

definition post_json :: "(api_call \<Rightarrow> api_result) \<Rightarrow> json \<Rightarrow> response \<times> api_call list" where
  "post_json api body =
     (if body = JNull then caught TypeError
      else
        let prompt = js_or (js_get body ''prompt'') (JStr []);
            size = js_or (js_get body ''size'') (JStr ''1024x1024'');
            model = js_or (js_get body ''model'') (JStr ''gpt-image-1'')
        in case js_String model of
             None \<Rightarrow> caught TypeError
           | Some model_text \<Rightarrow>
               respond api
                 (Generate (Json model) (Json prompt) (Json size)
                    (response_format_for model_text)))"

text \<open>
  \<open>POST\<close>. \<open>apiKey\<close> is the environment variable \<open>OPENAI_API_KEY\<close>, \<open>api\<close> the behaviour
  of the image API. The request gives its \<open>content-type\<close> header and what
  \<open>req.formData()\<close> and \<open>req.json()\<close> do on its body.
\<close>

definition POST :: "string option \<Rightarrow> (api_call \<Rightarrow> api_result) \<Rightarrow> request \<Rightarrow> response \<times> api_call list" where
  "POST apiKey api req =
     (let contentType = (case content_type req of None \<Rightarrow> [] | Some c \<Rightarrow> c)
      in case getOpenAI apiKey of
           Inl e \<Rightarrow> caught e
         | Inr client \<Rightarrow>
             if includes_str contentType ''multipart/form-data'' then
               (case req_formData req of
                  Inl e \<Rightarrow> caught e
                | Inr form \<Rightarrow> post_form api form)
             else
               (case req_json req of
                  Inl e \<Rightarrow> caught e
                | Inr body \<Rightarrow> post_json api body))"

section \<open>Notions used to state the properties\<close>

text \<open>\<open>needle\<close> occurs in \<open>hay\<close> as a contiguous piece.\<close>

definition is_substring :: "string \<Rightarrow> string \<Rightarrow> bool" where
  "is_substring needle hay = (\<exists>pre post. hay = pre @ needle @ post)"

text \<open>
  The search as the code performs it, stated with \<open>is_substring\<close>: the query occurs in the
  lowercased text \<open>prompt model action size\<close>, or in the lowercased tags joined by spaces.
\<close>

definition search_hit :: "(string \<Rightarrow> string) \<Rightarrow> string \<Rightarrow> GalleryItem \<Rightarrow> bool" where
  "search_hit toLowerCase q item =
     (\<exists>a s. js_String (action item) = Some a \<and> js_String (item_size item) = Some s
        \<and> (is_substring q (toLowerCase (prompt item @ '' '' @ model item @ '' '' @ a @ '' '' @ s))
           \<or> is_substring q (toLowerCase (join '' '' (case tags item of None \<Rightarrow> [] | Some ts \<Rightarrow> ts)))))"

text \<open>
  The search as the specification words it: the lowercased query occurs in the lowercased
  concatenation of prompt, model, action, size and tags, here joined by single spaces.
\<close>

definition claimed_hit :: "(string \<Rightarrow> string) \<Rightarrow> string \<Rightarrow> GalleryItem \<Rightarrow> bool" where
  "claimed_hit toLowerCase searchQuery item =
     (\<exists>a s. js_String (action item) = Some a \<and> js_String (item_size item) = Some s
        \<and> is_substring (toLowerCase searchQuery)
             (toLowerCase (prompt item @ '' '' @ model item @ '' '' @ a @ '' '' @ s @ '' ''
                           @ join '' '' (case tags item of None \<Rightarrow> [] | Some ts \<Rightarrow> ts))))"

text \<open>
  The items an export followed by an import gives back unchanged: the id, the creation
  time, the model and the image are not empty, the action and the size are strings that
  are not empty, as the declared string literals are, and \<open>tags\<close> is present.
\<close>

definition round_trips :: "GalleryItem \<Rightarrow> bool" where
  "round_trips item \<longleftrightarrow>
     item_id item \<noteq> [] \<and> createdAt item \<noteq> [] \<and> model item \<noteq> [] \<and> b64 item \<noteq> []
     \<and> (case action item of JStr a \<Rightarrow> a \<noteq> [] | _ \<Rightarrow> False)
     \<and> (case item_size item of JStr z \<Rightarrow> z \<noteq> [] | _ \<Rightarrow> False)
     \<and> tags item \<noteq> None"





text \<open>\<open>!apiKey\<close> in \<open>getOpenAI\<close>: the variable is unset or empty.\<close>

definition no_api_key :: "string option \<Rightarrow> bool" where
  "no_api_key apiKey = (apiKey = None \<or> apiKey = Some [])"

definition is_multipart :: "request \<Rightarrow> bool" where
  "is_multipart req =
     includes_str (case content_type req of None \<Rightarrow> [] | Some c \<Rightarrow> c) ''multipart/form-data''"

text \<open>
  An exception is thrown between the key check and the call to the image API: the body
  cannot be read in the form the content type selects, or the JSON body is \<open>null\<close>, or its
  model does not render as a string.
\<close>

definition body_throws :: "request \<Rightarrow> bool" where
  "body_throws req =
     (if is_multipart req then isl (req_formData req)
      else (case req_json req of
              Inl e \<Rightarrow> True
            | Inr b \<Rightarrow> b = JNull
                 \<or> js_String (js_or (js_get b ''model'') (JStr ''gpt-image-1'')) = None))"

text \<open>
  The image check fails: a multipart request whose form is read, whose action is \<open>edit\<close>
  or \<open>variation\<close>, and whose \<open>image\<close> field is absent or not a file.
\<close>

definition missing_image :: "request \<Rightarrow> bool" where
  "missing_image req =
     (is_multipart req \<and>
      (case req_formData req of
         Inl e \<Rightarrow> False
       | Inr form \<Rightarrow>
           (form_or form ''action'' ''generate'' = FText ''edit''
            \<or> form_or form ''action'' ''generate'' = FText ''variation'')
           \<and> (case form ''image'' of Some (FFile f) \<Rightarrow> False | _ \<Rightarrow> True)))"

section \<open>Example inputs\<close>

text \<open>
  The three built-ins on strings of code units below 256, which are those a \<open>char\<close> can
  hold. Of these code units the class \<open>\s\<close> and \<open>trim\<close> take the tab, the line feed, the
  vertical tab, the form feed, the carriage return, the space and the no-break space, and
  \<open>toLowerCase\<close> changes \<open>A\<close> to \<open>Z\<close> and the capital letters from U+00C0 to U+00DE, the
  multiplication sign U+00D7 apart. The examples below hand these to the program.
\<close>

definition latin1_space :: "char \<Rightarrow> bool" where
  "latin1_space c = (c = CHR 0x09 \<or> c = CHR 0x0A \<or> c = CHR 0x0B \<or> c = CHR 0x0C
                     \<or> c = CHR 0x0D \<or> c = CHR 0x20 \<or> c = CHR 0xA0)"

definition latin1_trim :: "string \<Rightarrow> string" where
  "latin1_trim s = rev (dropWhile latin1_space (rev (dropWhile latin1_space s)))"

definition latin1_lower :: "char \<Rightarrow> char" where
  "latin1_lower c =
     (let n = (of_char c :: nat)
      in if (65 \<le> n \<and> n \<le> 90) \<or> (192 \<le> n \<and> n \<le> 222 \<and> n \<noteq> 215)
         then char_of (n + 32) else c)"

definition latin1_toLowerCase :: "string \<Rightarrow> string" where
  "latin1_toLowerCase s = map latin1_lower s"

definition example_api :: "api_call \<Rightarrow> api_result" where
  "example_api call = Returns (Some [Some ''iVBORw0KGgo='', None])"

definition json_edit_request :: request where
  "json_edit_request =
     \<lparr>content_type = Some ''application/json'',
      req_formData = Inl TypeError,
      req_json = Inr (JObj [(''action'', JStr ''edit''), (''prompt'', JStr ''a red fox'')])\<rparr>"

definition json_variation_body :: json where
  "json_variation_body = JObj [(''prompt'', JStr ''a red fox''), (''action'', JStr ''variation'')]"

definition form_edit_request :: request where
  "form_edit_request =
     \<lparr>content_type = Some ''multipart/form-data; boundary=x'',
      req_formData = Inr (map_of [(''action'', FText ''edit''), (''prompt'', FText ''a red fox'')]),
      req_json = Inl (Thrown (Some ''Unexpected token''))\<rparr>"

definition bad_json_request :: request where
  "bad_json_request =
     \<lparr>content_type = Some ''application/json'',
      req_formData = Inl TypeError,
      req_json = Inl (Thrown (Some ''Unexpected end of JSON input''))\<rparr>"

definition example_generateId :: "nat \<Rightarrow> string" where
  "example_generateId n = ''id_1730000000000_k3x9'' @ replicate n (CHR ''a'')"

definition example_now :: "nat \<Rightarrow> string" where
  "example_now n = ''2025-06-01T12:00:00.000Z''"

definition fox_item :: GalleryItem where
  "fox_item = \<lparr>item_id = ''id-1'', createdAt = ''2025-01-01T00:00:00.000Z'', prompt = ''fox'',
      action = JStr ''generate'', item_size = JStr ''512x512'', model = ''gpt-image-1'',
      b64 = ''iVBORw0KGgo='', tags = Some [''noir'']\<rparr>"

definition fox_studio :: studio where
  "fox_studio = \<lparr>gallery = [fox_item], error = None\<rparr>"

text \<open>An item submitted with the model field of the form left empty.\<close>

definition default_model_item :: GalleryItem where
  "default_model_item = \<lparr>item_id = ''id-2'', createdAt = ''2025-01-02T00:00:00.000Z'',
      prompt = ''a red fox'', action = JStr ''generate'', item_size = JStr ''512x512'', model = [],
      b64 = ''iVBORw0KGgo='', tags = Some []\<rparr>"

text \<open>An item imported from an entry whose action is the number \<open>1e999\<close>.\<close>

definition infinite_action_item :: GalleryItem where
  "infinite_action_item = \<lparr>item_id = ''id-4'', createdAt = ''2025-01-04T00:00:00.000Z'',
      prompt = ''a red fox'', action = JNum ''Infinity'', item_size = JStr ''512x512'',
      model = ''gpt-image-1'', b64 = ''iVBORw0KGgo='', tags = Some []\<rparr>"

definition old_item :: "nat \<Rightarrow> GalleryItem" where
  "old_item n = \<lparr>item_id = replicate (Suc n) (CHR ''a''), createdAt = ''2025-01-01T00:00:00.000Z'',
      prompt = ''a red fox'', action = JStr ''generate'', item_size = JStr ''512x512'',
      model = ''gpt-image-1'', b64 = ''iVBORw0KGgo='', tags = Some []\<rparr>"

text \<open>A gallery at its cap: one hundred items with the ids \<open>a\<close>, \<open>aa\<close>, \<open>aaa\<close>, ...\<close>

definition full_studio :: studio where
  "full_studio = \<lparr>gallery = map old_item [0..<100], error = None\<rparr>"

definition empty_studio :: studio where
  "empty_studio = \<lparr>gallery = [], error = None\<rparr>"

definition one_new_entry :: json where
  "one_new_entry = JArr [JObj [(''id'', JStr ''new''), (''b64'', JStr ''iVBORw0KGgo='')]]"

definition twin_entries :: json where
  "twin_entries = JArr [JObj [(''id'', JStr ''twin''), (''b64'', JStr ''iVBORw0KGgo='')],
                        JObj [(''id'', JStr ''twin''), (''b64'', JStr ''R0lGODlhAQABAAAAACw='')]]"

definition many_tags_entry :: json where
  "many_tags_entry =
     JArr [JObj [(''id'', JStr ''tagged''), (''b64'', JStr ''iVBORw0KGgo=''),
                 (''tags'', JArr (map JStr (replicate 21 ''t'')))]]"




section \<open>Properties of the request proxy\<close>

subsection \<open>The outcomes of \<open>POST\<close>\<close>

lemma first_b64_nonempty: "first_b64 d = Some b \<Longrightarrow> b \<noteq> []"
  by (cases d rule: first_b64.cases) (auto split: if_splits)

lemma getOpenAI_Inl: "(\<exists>e. getOpenAI apiKey = Inl e) \<longleftrightarrow> no_api_key apiKey"
  by (auto simp: getOpenAI_def no_api_key_def split: option.splits)

lemma getOpenAI_no_key: "no_api_key apiKey \<Longrightarrow> getOpenAI apiKey = Inl (Thrown (Some ''OPENAI_API_KEY is not set''))"
  by (auto simp: getOpenAI_def no_api_key_def split: option.splits)

lemma getOpenAI_key: "\<not> no_api_key apiKey \<Longrightarrow> \<exists>k. getOpenAI apiKey = Inr k"
  by (auto simp: getOpenAI_def no_api_key_def split: option.splits)

lemma respond_cases:
  assumes "respond api call = (r, calls)"
  shows "calls = [call] \<and>
         ((\<exists>e. api call = Throws e \<and> r = error_response 500 (message_or e ''Unknown error''))
          \<or> (\<exists>d. api call = Returns d \<and> first_b64 d = None \<and> r = error_response 500 ''no image returned'')
          \<or> (\<exists>d b. api call = Returns d \<and> first_b64 d = Some b \<and> r = b64_response b))"
  using assms by (auto simp: respond_def split: api_result.splits option.splits)

lemma post_form_cases:
  assumes "post_form api form = (r, calls)"
  shows "if (form_or form ''action'' ''generate'' = FText ''edit''
             \<or> form_or form ''action'' ''generate'' = FText ''variation'')
            \<and> (case form ''image'' of Some (FFile f) \<Rightarrow> False | _ \<Rightarrow> True)
         then calls = [] \<and> (\<exists>m. r = error_response 400 m)
         else (\<exists>call. respond api call = (r, calls))"
  using assms unfolding post_form_def Let_def
  by (auto split: if_splits option.splits form_value.splits)

lemma post_json_cases:
  assumes "post_json api b = (r, calls)"
  shows "(if b = JNull \<or> js_String (js_or (js_get b ''model'') (JStr ''gpt-image-1'')) = None
          then (r, calls) = caught TypeError
          else (\<exists>m p s f. respond api (Generate m p s f) = (r, calls)))"
  using assms unfolding post_json_def Let_def
  by (auto split: if_splits option.splits)

lemma missing_image_reads: "missing_image req \<Longrightarrow> \<not> body_throws req"
  by (auto simp: missing_image_def body_throws_def split: sum.splits)

lemma POST_cases:
  assumes "POST apiKey api req = (r, calls)"
  shows "(calls = [] \<and> (\<exists>m. r = error_response 500 m) \<and> (no_api_key apiKey \<or> body_throws req))
       \<or> (calls = [] \<and> (\<exists>m. r = error_response 400 m) \<and> \<not> no_api_key apiKey
            \<and> \<not> body_throws req \<and> missing_image req)
       \<or> (\<not> no_api_key apiKey \<and> \<not> body_throws req \<and> \<not> missing_image req
            \<and> (\<exists>call. respond api call = (r, calls)))"
proof (cases "no_api_key apiKey")
  case True
  then show ?thesis using assms getOpenAI_no_key[OF True]
    by (auto simp: POST_def caught_def)
next
  case False
  then obtain k where k: "getOpenAI apiKey = Inr k" using getOpenAI_key by blast
  show ?thesis
  proof (cases "is_multipart req")
    case True
    show ?thesis
    proof (cases "req_formData req")
      case (Inl e)
      then show ?thesis using assms k True
        by (auto simp: POST_def caught_def body_throws_def is_multipart_def)
    next
      case (Inr form)
      let ?C = "(form_or form ''action'' ''generate'' = FText ''edit''
                 \<or> form_or form ''action'' ''generate'' = FText ''variation'')
                \<and> (case form ''image'' of Some (FFile f) \<Rightarrow> False | _ \<Rightarrow> True)"
      have pf: "post_form api form = (r, calls)" and nt: "\<not> body_throws req"
        using Inr assms k True by (auto simp: POST_def body_throws_def is_multipart_def)
      have mi: "missing_image req \<longleftrightarrow> ?C"
        using Inr True by (simp add: missing_image_def)
      show ?thesis
      proof (cases ?C)
        case c: True
        then have "calls = [] \<and> (\<exists>m. r = error_response 400 m)"
          using post_form_cases[OF pf] by simp
        then show ?thesis using False nt mi c by simp
      next
        case c: False
        then have "\<exists>call. respond api call = (r, calls)"
          using post_form_cases[OF pf] by simp
        then show ?thesis using False nt mi c by simp
      qed
    qed
  next
    case nm: False
    then have nmi: "\<not> missing_image req" by (simp add: missing_image_def)
    show ?thesis
    proof (cases "req_json req")
      case (Inl e)
      then show ?thesis using assms k nm
        by (auto simp: POST_def caught_def body_throws_def is_multipart_def)
    next
      case (Inr b)
      then have pj: "post_json api b = (r, calls)"
        using assms k nm by (auto simp: POST_def is_multipart_def)
      show ?thesis
      proof (cases "b = JNull \<or> js_String (js_or (js_get b ''model'') (JStr ''gpt-image-1'')) = None")
        case True
        then have "body_throws req" using Inr nm by (auto simp: body_throws_def)
        moreover have "(r, calls) = caught TypeError" using post_json_cases[OF pj] True by simp
        ultimately show ?thesis by (auto simp: caught_def)
      next
        case nthrow: False
        then have "\<not> body_throws req" using Inr nm by (auto simp: body_throws_def)
        moreover have "\<exists>call. respond api call = (r, calls)" using post_json_cases[OF pj] nthrow by auto
        ultimately show ?thesis using False nmi by simp
      qed
    qed
  qed
qed

lemma POST_early_failure:
  assumes "no_api_key apiKey \<or> body_throws req"
  shows "snd (POST apiKey api req) = [] \<and> status (fst (POST apiKey api req)) = 500"
proof -
  obtain r calls where rc: "POST apiKey api req = (r, calls)" by (cases "POST apiKey api req")
  from POST_cases[OF rc] assms have "calls = [] \<and> (\<exists>m. r = error_response 500 m)"
    using missing_image_reads[of req] by auto
  then show ?thesis using rc by (auto simp: error_response_def)
qed

lemma POST_json_edit:
  "POST (Some ''sk-test'') example_api json_edit_request =
     (b64_response ''iVBORw0KGgo='',
      [Generate (Json (JStr ''gpt-image-1'')) (Json (JStr ''a red fox'')) (Json (JStr ''1024x1024'')) None])"
  by (simp add: POST_def getOpenAI_def json_edit_request_def post_json_def respond_def
        example_api_def response_format_for_def)

lemma POST_no_key:
  "POST None example_api json_edit_request = (error_response 500 ''OPENAI_API_KEY is not set'', [])"
  by (simp add: POST_def getOpenAI_def caught_def)

lemma POST_form_edit:
  "POST (Some ''sk-test'') example_api form_edit_request =
     (error_response 400 ''image file is required for edit'', [])"
  by (simp add: POST_def getOpenAI_def form_edit_request_def post_form_def form_or_def)

lemma POST_bad_json:
  "POST (Some ''sk-test'') example_api bad_json_request =
     (error_response 500 ''Unexpected end of JSON input'', [])"
  by (simp add: POST_def getOpenAI_def bad_json_request_def caught_def)

subsection \<open>Requests to edit or vary without an image\<close>

text \<open>
  Claim C1, as the code has it. A multipart request whose form can be read, whose action
  is \<open>edit\<close> or \<open>variation\<close> and whose \<open>image\<close> field is not a file makes no call to
  the image API. With the API key configured the answer is status 400 with the error
  \<open>image file is required for\<close> that action; without the key it is status 500 with
  the error \<open>OPENAI_API_KEY is not set\<close>.
\<close>

theorem POST_rejects_missing_image:
  assumes "is_multipart req"
    and "req_formData req = Inr form"
    and "form ''action'' = Some (FText a)"
    and "a = ''edit'' \<or> a = ''variation''"
    and "\<forall>f. form ''image'' \<noteq> Some (FFile f)"
  shows "snd (POST apiKey api req) = []
     \<and> fst (POST apiKey api req) =
         (if no_api_key apiKey then error_response 500 ''OPENAI_API_KEY is not set''
          else error_response 400 (''image file is required for '' @ a))"
proof (cases "no_api_key apiKey")
  case True
  then show ?thesis using getOpenAI_no_key[OF True] by (simp add: POST_def caught_def)
next
  case False
  then obtain k where k: "getOpenAI apiKey = Inr k" using getOpenAI_key by blast
  have act: "form_or form ''action'' ''generate'' = FText a"
    using assms(3,4) by (auto simp: form_or_def)
  have "post_form api form = (error_response 400 (''image file is required for '' @ a), [])"
    using assms(4,5) act unfolding post_form_def Let_def
    by (auto split: option.splits form_value.splits)
  then show ?thesis using False k assms(1,2) by (simp add: POST_def is_multipart_def)
qed

theorem POST_rejects_missing_image_witness:
  "is_multipart form_edit_request
   \<and> status (fst (POST (Some ''sk-test'') example_api form_edit_request)) = 400
   \<and> resp_body (fst (POST (Some ''sk-test'') example_api form_edit_request)) = [(''error'', ''image file is required for edit'')]
   \<and> snd (POST (Some ''sk-test'') example_api form_edit_request) = []"
proof -
  have m: "is_multipart form_edit_request"
    by (simp add: is_multipart_def form_edit_request_def)
  have f: "req_formData form_edit_request = Inr (map_of [(''action'', FText ''edit''), (''prompt'', FText ''a red fox'')])"
    by (simp add: form_edit_request_def)
  have a: "map_of [(''action'', FText ''edit''), (''prompt'', FText ''a red fox'')] ''action'' = Some (FText ''edit'')"
    by simp
  have i: "\<forall>f. map_of [(''action'', FText ''edit''), (''prompt'', FText ''a red fox'')] ''image'' \<noteq> Some (FFile f)"
    by simp
  have e: "''edit'' = ''edit'' \<or> ''edit'' = ''variation''" by simp
  show ?thesis
    using POST_rejects_missing_image[OF m f a e i, of "Some ''sk-test''" example_api] m
    by (simp add: no_api_key_def error_response_def)
qed

text \<open>
  Claim C1 as stated covers every request whose action is \<open>edit\<close>. A request with a JSON
  body naming the action \<open>edit\<close> carries no image file, and yet it is answered with
  status 200 after a call to \<open>generate\<close>.
\<close>

theorem POST_json_edit_not_rejected:
  "js_get (JObj [(''action'', JStr ''edit''), (''prompt'', JStr ''a red fox'')]) ''action'' = Some (JStr ''edit'')
   \<and> req_json json_edit_request = Inr (JObj [(''action'', JStr ''edit''), (''prompt'', JStr ''a red fox'')])
   \<and> status (fst (POST (Some ''sk-test'') example_api json_edit_request)) = 200
   \<and> snd (POST (Some ''sk-test'') example_api json_edit_request) =
       [Generate (Json (JStr ''gpt-image-1'')) (Json (JStr ''a red fox'')) (Json (JStr ''1024x1024'')) None]"
  by (simp add: POST_json_edit b64_response_def) (simp add: json_edit_request_def)

subsection \<open>Response normalization\<close>

text \<open>
  Claim C6, as the code has it. Every answer has status 200, 400 or 500, and at most one
  call is made. Status 200 comes with \<open>{b64: s}\<close> alone, where \<open>s\<close> is the \<open>b64_json\<close> of
  the first entry of the data the one call returned, and \<open>s\<close> is not empty. Status 400 is
  given if and only if the API key is set and the image check fails: the request is
  multipart, its form is read, its action is \<open>edit\<close> or \<open>variation\<close> and it carries no
  image file. No call is made if and only if the key is unset or empty, or an exception is
  thrown while the body is read and the parameters are built, or the image check fails.
  Status 500 is given if and only if the API key is unset or empty, or an exception is
  thrown while the body is read and the parameters are built, or the one call made throws,
  or it returns data whose first entry has no non-empty \<open>b64_json\<close>. Every answer other
  than 200 carries \<open>{error: message}\<close> alone, and no answer carries both members.
\<close>

theorem POST_response_normalization:
  assumes "POST apiKey api req = (r, calls)"
  shows "(status r = 200 \<or> status r = 400 \<or> status r = 500)
    \<and> (calls = [] \<or> (\<exists>call. calls = [call]))
    \<and> (status r = 200 \<longrightarrow>
         (\<exists>call d b. calls = [call] \<and> api call = Returns d \<and> first_b64 d = Some b \<and> b \<noteq> []
            \<and> resp_body r = [(''b64'', b)]))
    \<and> (status r = 400 \<longleftrightarrow> \<not> no_api_key apiKey \<and> missing_image req)
    \<and> (calls = [] \<longleftrightarrow> no_api_key apiKey \<or> body_throws req \<or> missing_image req)
    \<and> (status r = 500 \<longleftrightarrow>
         no_api_key apiKey \<or> body_throws req
         \<or> (\<exists>call. calls = [call]
               \<and> ((\<exists>e. api call = Throws e) \<or> (\<exists>d. api call = Returns d \<and> first_b64 d = None))))
    \<and> (status r \<noteq> 200 \<longrightarrow> (\<exists>m. resp_body r = [(''error'', m)]))
    \<and> \<not> (''b64'' \<in> fst ` set (resp_body r) \<and> ''error'' \<in> fst ` set (resp_body r))"
proof -
  consider
    (early) m where "calls = []" "r = error_response 500 m" "no_api_key apiKey \<or> body_throws req"
  | (invalid) m where "calls = []" "r = error_response 400 m" "\<not> no_api_key apiKey"
      "\<not> body_throws req" "missing_image req"
  | (called) call where "\<not> no_api_key apiKey" "\<not> body_throws req" "\<not> missing_image req"
      "respond api call = (r, calls)"
    using POST_cases[OF assms] by blast
  then show ?thesis
  proof cases
    case early
    then show ?thesis using missing_image_reads[of req] by (auto simp: error_response_def)
  next
    case invalid
    then show ?thesis by (auto simp: error_response_def)
  next
    case called
    from respond_cases[OF called(4)] have c: "calls = [call]" by simp
    from respond_cases[OF called(4)] consider
      (throws) e where "api call = Throws e" "r = error_response 500 (message_or e ''Unknown error'')"
    | (empty) d where "api call = Returns d" "first_b64 d = None" "r = error_response 500 ''no image returned''"
    | (image) d b where "api call = Returns d" "first_b64 d = Some b" "r = b64_response b"
      by blast
    then show ?thesis
    proof cases
      case throws
      then show ?thesis using c called(1,2,3) by (auto simp: error_response_def)
    next
      case empty
      then show ?thesis using c called(1,2,3) by (auto simp: error_response_def)
    next
      case image
      then show ?thesis using c called(1,2,3) first_b64_nonempty[OF image(2)]
        by (auto simp: b64_response_def)
    qed
  qed
qed

theorem POST_response_normalization_witness:
  "POST (Some ''sk-test'') example_api json_edit_request =
     (b64_response ''iVBORw0KGgo='',
      [Generate (Json (JStr ''gpt-image-1'')) (Json (JStr ''a red fox'')) (Json (JStr ''1024x1024'')) None])
   \<and> status (b64_response ''iVBORw0KGgo='') = 200
   \<and> (\<exists>d b. example_api (Generate (Json (JStr ''gpt-image-1'')) (Json (JStr ''a red fox'')) (Json (JStr ''1024x1024'')) None) = Returns d
          \<and> first_b64 d = Some b \<and> b \<noteq> [] \<and> resp_body (b64_response ''iVBORw0KGgo='') = [(''b64'', b)])
   \<and> POST (Some ''sk-test'') example_api bad_json_request =
        (error_response 500 ''Unexpected end of JSON input'', [])
   \<and> status (error_response 500 ''Unexpected end of JSON input'') = 500
   \<and> body_throws bad_json_request
   \<and> POST (Some ''sk-test'') example_api form_edit_request =
        (error_response 400 ''image file is required for edit'', [])
   \<and> status (error_response 400 ''image file is required for edit'') = 400
   \<and> \<not> no_api_key (Some ''sk-test'') \<and> missing_image form_edit_request"
proof -
  have s: "status (b64_response ''iVBORw0KGgo='') = 200" by (simp add: b64_response_def)
  have t: "body_throws bad_json_request"
    by (simp add: body_throws_def is_multipart_def bad_json_request_def)
  have u: "status (error_response 400 ''image file is required for edit'') = 400"
    by (simp add: error_response_def)
  have k: "\<not> no_api_key (Some ''sk-test'')" by (simp add: no_api_key_def)
  have m: "missing_image form_edit_request"
    using POST_response_normalization[OF POST_form_edit] u by simp
  show ?thesis
    using POST_response_normalization[OF POST_json_edit] POST_response_normalization[OF POST_bad_json]
      s t u k m POST_json_edit POST_bad_json POST_form_edit
    by (simp add: error_response_def)
qed

text \<open>
  Claim C6 as stated lists three causes of status 500. A request whose JSON body cannot be
  parsed is answered with status 500 although the key is set and no call was made at all,
  so that none threw and none returned a response without an image.
\<close>

theorem POST_unreadable_body_500:
  "status (fst (POST (Some ''sk-test'') example_api bad_json_request)) = 500
   \<and> resp_body (fst (POST (Some ''sk-test'') example_api bad_json_request))
       = [(''error'', ''Unexpected end of JSON input'')]
   \<and> Some ''sk-test'' \<noteq> (None :: string option)
   \<and> snd (POST (Some ''sk-test'') example_api bad_json_request) = []"
  by (simp add: POST_bad_json error_response_def)

subsection \<open>Requests that are not multipart\<close>

text \<open>
  Claim C10, as the code has it. For a request whose content type is not multipart, the only operation of the
  image API ever called is \<open>generate\<close>, and the answer is never the status 400 of the
  image check. When the key is unset or an exception is thrown while the body is read,
  the answer is status 500 and no call is made; otherwise exactly one call is made:
  \<open>generate\<close> with the model, prompt and size of the body or their defaults. The action
  of the body plays no part: a body that differs in nothing but \<open>action\<close> gives the same
  answer and the same call.
\<close>

theorem POST_json_always_generates:
  assumes "\<not> is_multipart req"
  shows "(\<forall>call \<in> set (snd (POST apiKey api req)). \<exists>m p s f. call = Generate m p s f)
    \<and> status (fst (POST apiKey api req)) \<noteq> 400
    \<and> (no_api_key apiKey \<or> body_throws req
         \<longrightarrow> snd (POST apiKey api req) = [] \<and> status (fst (POST apiKey api req)) = 500)
    \<and> (\<forall>b mt. \<not> no_api_key apiKey \<and> req_json req = Inr b \<and> b \<noteq> JNull
           \<and> js_String (js_or (js_get b ''model'') (JStr ''gpt-image-1'')) = Some mt
         \<longrightarrow> snd (POST apiKey api req) =
               [Generate (Json (js_or (js_get b ''model'') (JStr ''gpt-image-1'')))
                         (Json (js_or (js_get b ''prompt'') (JStr [])))
                         (Json (js_or (js_get b ''size'') (JStr ''1024x1024'')))
                         (response_format_for mt)])
    \<and> (\<forall>b b'. req_json req = Inr b \<and> (b = JNull \<longleftrightarrow> b' = JNull)
           \<and> (\<forall>k. k \<noteq> ''action'' \<longrightarrow> js_get b' k = js_get b k)
         \<longrightarrow> POST apiKey api (req\<lparr>req_json := Inr b'\<rparr>) = POST apiKey api req)"
proof (intro conjI allI impI ballI)
  fix call assume "call \<in> set (snd (POST apiKey api req))"
  then show "\<exists>m p s f. call = Generate m p s f"
    using assms
    by (auto simp: POST_def is_multipart_def caught_def post_json_def respond_def Let_def
        split: sum.splits option.splits if_splits api_result.splits)
next
  show "status (fst (POST apiKey api req)) \<noteq> 400"
    using assms
    by (auto simp: POST_def is_multipart_def caught_def post_json_def respond_def Let_def
          error_response_def b64_response_def
        split: sum.splits option.splits if_splits api_result.splits)
next
  assume "no_api_key apiKey \<or> body_throws req"
  then show "snd (POST apiKey api req) = []"
    by (rule POST_early_failure[THEN conjunct1])
next
  assume "no_api_key apiKey \<or> body_throws req"
  then show "status (fst (POST apiKey api req)) = 500"
    by (rule POST_early_failure[THEN conjunct2])
next
  fix b mt
  assume "\<not> no_api_key apiKey \<and> req_json req = Inr b \<and> b \<noteq> JNull
           \<and> js_String (js_or (js_get b ''model'') (JStr ''gpt-image-1'')) = Some mt"
  then show "snd (POST apiKey api req) =
               [Generate (Json (js_or (js_get b ''model'') (JStr ''gpt-image-1'')))
                         (Json (js_or (js_get b ''prompt'') (JStr [])))
                         (Json (js_or (js_get b ''size'') (JStr ''1024x1024'')))
                         (response_format_for mt)]"
    using assms getOpenAI_key[of apiKey]
    by (auto simp: POST_def is_multipart_def post_json_def respond_def Let_def
        split: option.splits api_result.splits)
next
  fix b b'
  assume h: "req_json req = Inr b \<and> (b = JNull \<longleftrightarrow> b' = JNull)
           \<and> (\<forall>k. k \<noteq> ''action'' \<longrightarrow> js_get b' k = js_get b k)"
  then have "js_get b' ''model'' = js_get b ''model''" "js_get b' ''prompt'' = js_get b ''prompt''"
    "js_get b' ''size'' = js_get b ''size''"
    by simp_all
  then have "post_json api b' = post_json api b"
    using h by (simp add: post_json_def)
  then show "POST apiKey api (req\<lparr>req_json := Inr b'\<rparr>) = POST apiKey api req"
    using h assms by (simp add: POST_def is_multipart_def split: sum.splits)
qed

theorem POST_json_always_generates_witness:
  "\<not> is_multipart json_edit_request
   \<and> js_get (JObj [(''action'', JStr ''edit''), (''prompt'', JStr ''a red fox'')]) ''action'' = Some (JStr ''edit'')
   \<and> snd (POST (Some ''sk-test'') example_api json_edit_request) =
       [Generate (Json (JStr ''gpt-image-1'')) (Json (JStr ''a red fox'')) (Json (JStr ''1024x1024'')) None]
   \<and> status (fst (POST (Some ''sk-test'') example_api json_edit_request)) \<noteq> 400
   \<and> POST (Some ''sk-test'') example_api (json_edit_request\<lparr>req_json := Inr json_variation_body\<rparr>)
       = POST (Some ''sk-test'') example_api json_edit_request
   \<and> \<not> is_multipart bad_json_request \<and> body_throws bad_json_request
   \<and> snd (POST (Some ''sk-test'') example_api bad_json_request) = []
   \<and> status (fst (POST (Some ''sk-test'') example_api bad_json_request)) = 500"
proof -
  let ?body = "JObj [(''action'', JStr ''edit''), (''prompt'', JStr ''a red fox'')]"
  have nm: "\<not> is_multipart json_edit_request"
    by (simp add: is_multipart_def json_edit_request_def)
  have ac: "js_get ?body ''action'' = Some (JStr ''edit'')" by simp
  have rq: "req_json json_edit_request = Inr ?body"
    by (simp add: json_edit_request_def)
  have same: "\<forall>k. k \<noteq> ''action'' \<longrightarrow> js_get json_variation_body k = js_get ?body k"
    by (simp add: json_variation_body_def)
  have nn: "?body = JNull \<longleftrightarrow> json_variation_body = JNull"
    by (simp add: json_variation_body_def)
  have key: "\<not> no_api_key (Some ''sk-test'')" by (simp add: no_api_key_def)
  have ms: "js_String (js_or (js_get ?body ''model'') (JStr ''gpt-image-1'')) = Some ''gpt-image-1''"
    by simp
  note t = POST_json_always_generates[OF nm, of "Some ''sk-test''" example_api]
  have a: "status (fst (POST (Some ''sk-test'') example_api json_edit_request)) \<noteq> 400"
    by (rule t[THEN conjunct2, THEN conjunct1])
  note call = t[THEN conjunct2, THEN conjunct2, THEN conjunct2, THEN conjunct1, rule_format,
                of ?body "''gpt-image-1''"]
  have "snd (POST (Some ''sk-test'') example_api json_edit_request) =
       [Generate (Json (js_or (js_get ?body ''model'') (JStr ''gpt-image-1'')))
                 (Json (js_or (js_get ?body ''prompt'') (JStr [])))
                 (Json (js_or (js_get ?body ''size'') (JStr ''1024x1024'')))
                 (response_format_for ''gpt-image-1'')]"
    by (rule call) (intro conjI key rq ms, simp)
  then have b: "snd (POST (Some ''sk-test'') example_api json_edit_request) =
       [Generate (Json (JStr ''gpt-image-1'')) (Json (JStr ''a red fox'')) (Json (JStr ''1024x1024'')) None]"
    by (simp add: response_format_for_def)
  note indep = t[THEN conjunct2, THEN conjunct2, THEN conjunct2, THEN conjunct2, rule_format,
                 of ?body json_variation_body]
  have c: "POST (Some ''sk-test'') example_api (json_edit_request\<lparr>req_json := Inr json_variation_body\<rparr>)
       = POST (Some ''sk-test'') example_api json_edit_request"
    by (rule indep) (intro conjI rq nn same)
  have nm': "\<not> is_multipart bad_json_request"
    by (simp add: is_multipart_def bad_json_request_def)
  have bt: "body_throws bad_json_request"
    by (simp add: body_throws_def is_multipart_def bad_json_request_def)
  note early = POST_json_always_generates[OF nm', of "Some ''sk-test''" example_api,
                 THEN conjunct2, THEN conjunct2, THEN conjunct1, rule_format]
  have d: "snd (POST (Some ''sk-test'') example_api bad_json_request) = []
           \<and> status (fst (POST (Some ''sk-test'') example_api bad_json_request)) = 500"
    by (rule early) (rule disjI2[OF bt])
  from nm ac b a c nm' bt d show ?thesis by (intro conjI) simp_all
qed

text \<open>
  Claim C10 as stated has every request that is not multipart parsed and answered by a
  call to \<open>generate\<close>. With the API key unset, a request with a JSON body naming the
  action \<open>edit\<close> is answered with status 500 and no call is made.
\<close>

theorem POST_no_key_no_generate:
  "\<not> is_multipart json_edit_request
   \<and> req_json json_edit_request = Inr (JObj [(''action'', JStr ''edit''), (''prompt'', JStr ''a red fox'')])
   \<and> status (fst (POST None example_api json_edit_request)) = 500
   \<and> snd (POST None example_api json_edit_request) = []"
  by (simp add: POST_no_key error_response_def) (simp add: is_multipart_def json_edit_request_def)

section \<open>Properties of the gallery\<close>

subsection \<open>Lists of optional results\<close>


lemma those_js_String_JStr: "those (map (js_String \<circ> JStr) ss) = Some ss"
  by (induction ss) simp_all


subsection \<open>What the import makes of an entry\<close>






lemma handleImportFile_array:
  "incoming gen now arr = Some items \<Longrightarrow>
   handleImportFile gen now (Some (Inr (JArr arr))) st = st\<lparr>gallery := merged items (gallery st)\<rparr>"
  by (simp add: handleImportFile_def import_result_def)











subsection \<open>Export, then import\<close>

lemma import_entry_item_to_json:
  assumes "round_trips item"
  shows "import_entry g t (item_to_json item) = Some item"
proof -
  from assms obtain ts where ts: "tags item = Some ts" by (auto simp: round_trips_def)
  from assms obtain a where a: "action item = JStr a" "a \<noteq> []"
    by (auto simp: round_trips_def split: json.splits)
  from assms obtain z where z: "item_size item = JStr z" "z \<noteq> []"
    by (auto simp: round_trips_def split: json.splits)
  from assms have ne: "item_id item \<noteq> []" "createdAt item \<noteq> []" "model item \<noteq> []" "b64 item \<noteq> []"
    by (simp_all add: round_trips_def)
  show ?thesis
    using ne ts a z
    by (cases item) (simp add: import_entry_def item_to_json_def those_js_String_JStr)
qed

lemma those_import_export:
  assumes "\<forall>item \<in> set g. round_trips item"
  shows "those (map (\<lambda>(n, x). import_entry (gen n) (now n) x) (enumerate k (map item_to_json g))) = Some g"
  using assms
  by (induction g arbitrary: k) (simp_all add: import_entry_item_to_json)

text \<open>
  Claim C5, as the code has it. Take a gallery in which every item has a non-empty id,
  creation time, model and image, an action and a size that are non-empty strings (as the
  declared string literals are), and a tags list. Exporting it and importing the export
  into an empty gallery gives the same list back, every field of every item unchanged.
\<close>

theorem export_import_round_trip:
  assumes "\<forall>item \<in> set g. round_trips item"
  shows "handleImportFile generateId now (Some (Inr (exportGalleryAsJSON \<lparr>gallery = g, error = e\<rparr>)))
           \<lparr>gallery = [], error = e'\<rparr> = \<lparr>gallery = g, error = e'\<rparr>"
proof -
  have "filter (\<lambda>x. length (b64 x) > 0) g = g"
    using assms by (simp add: round_trips_def)
  then have "incoming generateId now (map item_to_json g) = Some g"
    by (simp add: incoming_def those_import_export[OF assms])
  then show ?thesis
    by (simp add: exportGalleryAsJSON_def handleImportFile_array merged_def)
qed


theorem export_import_round_trip_witness:
  "round_trips fox_item
   \<and> handleImportFile example_generateId example_now
        (Some (Inr (exportGalleryAsJSON \<lparr>gallery = [fox_item, fox_item], error = None\<rparr>)))
        \<lparr>gallery = [], error = None\<rparr> = \<lparr>gallery = [fox_item, fox_item], error = None\<rparr>"
proof -
  have r: "round_trips fox_item" by (simp add: round_trips_def fox_item_def)
  then have "\<forall>item \<in> set [fox_item, fox_item]. round_trips item" by simp
  from export_import_round_trip[OF this, of example_generateId example_now None None] r show ?thesis by simp
qed

text \<open>
  Claim C5 as stated asks only for string fields that are present, a non-empty image and
  a tags list. An item whose model is the empty string has all that, and comes back from
  the round trip with the model \<open>gpt-image-1\<close>.
\<close>

theorem export_import_loses_empty_model:
  "gallery (handleImportFile example_generateId example_now
      (Some (Inr (exportGalleryAsJSON \<lparr>gallery = [default_model_item], error = None\<rparr>)))
      \<lparr>gallery = [], error = None\<rparr>)
     = [default_model_item\<lparr>model := ''gpt-image-1''\<rparr>]
   \<and> [default_model_item\<lparr>model := ''gpt-image-1''\<rparr>] \<noteq> [default_model_item]
   \<and> b64 default_model_item \<noteq> [] \<and> tags default_model_item = Some []"
  by (simp add: handleImportFile_def import_result_def incoming_def import_entry_def merged_def
        exportGalleryAsJSON_def item_to_json_def default_model_item_def)

text \<open>
  An action or a size that is not a string need not come back either: the export writes a
  number that is not finite as \<open>null\<close>, and the import reads \<open>null\<close> as missing.
\<close>

lemma export_import_loses_infinite_action:
  "gallery (handleImportFile example_generateId example_now
      (Some (Inr (exportGalleryAsJSON \<lparr>gallery = [infinite_action_item], error = None\<rparr>)))
      \<lparr>gallery = [], error = None\<rparr>)
     = [infinite_action_item\<lparr>action := JStr ''generate''\<rparr>]"
  by (simp add: handleImportFile_def import_result_def incoming_def import_entry_def merged_def
        exportGalleryAsJSON_def item_to_json_def infinite_action_item_def)

subsection \<open>The caps of the gallery\<close>

text \<open>What a submission does to the gallery, and what delete and clear do.\<close>

lemma addToGallery_bound: "length (gallery (addToGallery item st)) \<le> 100"
  by (simp add: addToGallery_def)

lemma addToGallery_prepends:
  "gallery (addToGallery item st) = item # take 99 (gallery st)"
  by (simp add: addToGallery_def take_Cons')

lemma deleteFromGallery_bound: "length (gallery (deleteFromGallery i st)) \<le> length (gallery st)"
  by (simp add: deleteFromGallery_def)

lemma clearGallery_empty: "gallery (clearGallery st) = []"
  by (simp add: clearGallery_def)

lemma parseTags_bound: "length (parseTags trim input) \<le> 20"
  by (simp add: parseTags_def)

text \<open>
  Claim C2: the gallery never holds more than 100 items after an add, an import, a delete
  or a clear. The add, the delete and the clear keep that bound, as shown above. The import
  does not cut the merged list as \<open>addToGallery\<close> does: importing one new entry into a
  gallery of one hundred items leaves one hundred and one.
\<close>

theorem import_exceeds_gallery_cap:
  "length (gallery full_studio) = 100
   \<and> length (gallery (handleImportFile example_generateId example_now (Some (Inr one_new_entry)) full_studio)) = 101"
  by (auto simp add: handleImportFile_def import_result_def incoming_def import_entry_def merged_def
        old_item_def enumerate_eq_zip full_studio_def one_new_entry_def)

text \<open>
  Claim C4: every item in the gallery has at most 20 tags. A submission keeps that bound,
  by \<open>parseTags\<close>. The import does not cut the tags of an entry as \<open>parseTags\<close> does: an
  entry with twenty-one tags is stored with all of them.
\<close>

theorem import_keeps_long_tags:
  "map tags (gallery (handleImportFile example_generateId example_now (Some (Inr many_tags_entry)) empty_studio))
     = [Some (replicate 21 ''t'')]
   \<and> length (replicate 21 ''t'') = 21"
  by (simp add: handleImportFile_def import_result_def incoming_def import_entry_def merged_def
        enumerate_eq_zip those_js_String_JStr empty_studio_def many_tags_entry_def
      del: map_replicate)

subsection \<open>The merge of the import\<close>

lemma merged_shape:
  "\<exists>new. merged inc prev = new @ prev
     \<and> new = filter (\<lambda>i. item_id i \<notin> item_id ` set prev) inc
     \<and> set new \<subseteq> set inc
     \<and> (\<forall>i \<in> set new. \<forall>p \<in> set prev. item_id i \<noteq> item_id p)"
  by (auto simp: merged_def)

lemma merged_distinct:
  assumes "distinct (map item_id prev)" and "distinct (map item_id inc)"
  shows "distinct (map item_id (merged inc prev))"
  using assms by (auto simp: merged_def distinct_map_filter)

text \<open>
  Claim C3: after an import no two items of the gallery have the same id, the items that
  were there keep their order, and the new items come before them. The last two hold by
  the shape of the merge, shown above. The import drops the entries whose id is already in
  the gallery, but it does not compare the entries of the file with each other: two
  entries with one id, imported into an empty gallery, are both kept.
\<close>

theorem import_keeps_duplicate_ids:
  "map item_id (gallery (handleImportFile example_generateId example_now (Some (Inr twin_entries)) empty_studio))
     = [''twin'', ''twin'']
   \<and> \<not> distinct (map item_id (gallery (handleImportFile example_generateId example_now (Some (Inr twin_entries)) empty_studio)))"
  by (simp add: handleImportFile_def import_result_def incoming_def import_entry_def merged_def
        enumerate_eq_zip empty_studio_def twin_entries_def)

subsection \<open>Search\<close>

lemma includes_str_iff: "includes_str hay needle \<longleftrightarrow> (\<exists>pre post. hay = pre @ needle @ post)"
proof (induction hay)
  case Nil
  then show ?case by auto
next
  case (Cons c cs)
  have "take (length needle) (c # cs) = needle \<longleftrightarrow> (\<exists>post. c # cs = needle @ post)"
    by (metis append_eq_conv_conj append_take_drop_id)
  moreover have "(\<exists>pre post. c # cs = pre @ needle @ post)
      \<longleftrightarrow> (\<exists>post. c # cs = needle @ post) \<or> (\<exists>pre post. cs = pre @ needle @ post)"
  proof
    assume "\<exists>pre post. c # cs = pre @ needle @ post"
    then obtain pre post where e: "c # cs = pre @ needle @ post" by blast
    show "(\<exists>post. c # cs = needle @ post) \<or> (\<exists>pre post. cs = pre @ needle @ post)"
    proof (cases pre)
      case Nil
      then show ?thesis using e by auto
    next
      case (Cons p ps)
      then have "cs = ps @ needle @ post" using e by simp
      then show ?thesis by blast
    qed
  next
    assume "(\<exists>post. c # cs = needle @ post) \<or> (\<exists>pre post. cs = pre @ needle @ post)"
    then show "\<exists>pre post. c # cs = pre @ needle @ post"
    proof
      assume "\<exists>post. c # cs = needle @ post"
      then show ?thesis by (metis append_Nil)
    next
      assume "\<exists>pre post. cs = pre @ needle @ post"
      then obtain pre post where "cs = pre @ needle @ post" by blast
      then have "c # cs = (c # pre) @ needle @ post" by simp
      then show ?thesis by blast
    qed
  qed
  ultimately show ?case using Cons.IH by simp
qed

lemma includes_str_empty: "includes_str hay []"
  by (induction hay) simp_all

lemma filter_throwing_Some:
  assumes "\<forall>x \<in> set xs. \<exists>b. p x = Some b"
  shows "filter_throwing p xs = Some (filter (\<lambda>x. p x = Some True) xs)"
  using assms by (induction xs) auto

lemma filter_throwing_None:
  assumes "\<exists>x \<in> set xs. p x = None"
  shows "filter_throwing p xs = None"
  using assms by (induction xs) (auto split: option.splits)


lemma is_substring_iff: "is_substring needle hay \<longleftrightarrow> includes_str hay needle"
  by (simp add: is_substring_def includes_str_iff)

lemma item_matches_renders:
  assumes "js_String (action item) \<noteq> None" and "js_String (item_size item) \<noteq> None"
  shows "item_matches toLowerCase q item = Some (search_hit toLowerCase q item)"
  using assms by (auto simp: item_matches_def search_hit_def is_substring_iff Let_def)

lemma search_hit_empty:
  assumes "js_String (action item) \<noteq> None" and "js_String (item_size item) \<noteq> None"
  shows "search_hit toLowerCase [] item"
  using assms by (auto simp: search_hit_def is_substring_iff includes_str_empty)

text \<open>
  Claim C7, as the code has it, for whatever \<open>toLowerCase\<close> and \<open>trim\<close> do. In a gallery
  whose items have an action and a size that render as strings, the filtered result is the
  items, in their order, for which the trimmed and lowercased query occurs in the
  lowercased text \<open>prompt model action size\<close> or in the lowercased tags joined by single
  spaces. A query that is empty after trimming and lowercasing occurs everywhere and keeps
  every item.
\<close>

theorem filteredGallery_search:
  assumes "\<forall>item \<in> set (gallery st). js_String (action item) \<noteq> None \<and> js_String (item_size item) \<noteq> None"
  shows "filteredGallery toLowerCase trim searchQuery st
           = Some (filter (search_hit toLowerCase (toLowerCase (trim searchQuery))) (gallery st))"
proof (cases "toLowerCase (trim searchQuery) = []")
  case True
  have "filter (search_hit toLowerCase []) (gallery st) = gallery st"
    using assms by (simp add: search_hit_empty)
  then show ?thesis using True by (simp add: filteredGallery_def)
next
  case False
  let ?q = "toLowerCase (trim searchQuery)"
  have "\<forall>x \<in> set (gallery st). \<exists>b. item_matches toLowerCase ?q x = Some b"
    using assms by (simp add: item_matches_renders)
  then have "filter_throwing (item_matches toLowerCase ?q) (gallery st)
      = Some (filter (\<lambda>x. item_matches toLowerCase ?q x = Some True) (gallery st))"
    by (rule filter_throwing_Some)
  also have "filter (\<lambda>x. item_matches toLowerCase ?q x = Some True) (gallery st)
      = filter (search_hit toLowerCase ?q) (gallery st)"
    using assms by (intro filter_cong refl) (simp add: item_matches_renders)
  finally show ?thesis using False by (simp add: filteredGallery_def Let_def)
qed

theorem filteredGallery_search_witness:
  "filteredGallery latin1_toLowerCase latin1_trim '' fox'' fox_studio = Some [fox_item]
   \<and> search_hit latin1_toLowerCase ''fox'' fox_item"
proof -
  have r: "\<forall>item \<in> set (gallery fox_studio). js_String (action item) \<noteq> None \<and> js_String (item_size item) \<noteq> None"
    by (simp add: fox_studio_def fox_item_def)
  have q: "latin1_toLowerCase (latin1_trim '' fox'') = ''fox''"
    by (simp add: latin1_trim_def latin1_space_def latin1_toLowerCase_def latin1_lower_def)
  have h: "search_hit latin1_toLowerCase ''fox'' fox_item"
    by (simp add: search_hit_def is_substring_iff fox_item_def
          latin1_toLowerCase_def latin1_lower_def)
  show ?thesis
    using filteredGallery_search[OF r, of latin1_toLowerCase latin1_trim "'' fox''"] q h
    by (simp add: fox_studio_def)
qed

text \<open>
  Claim C7 as stated takes the query as typed and one concatenation of all five fields.
  The query \<open> fox\<close> with a leading space keeps an item whose lowercased fields nowhere
  hold a space followed by \<open>fox\<close>; and the query \<open>512x512 noir\<close>, which runs from the
  size into the first tag, occurs in the concatenation and keeps nothing. All the text
  here is ASCII, on which the built-ins are as \<open>latin1_toLowerCase\<close> and \<open>latin1_trim\<close>.
\<close>

theorem filteredGallery_not_as_claimed:
  "filteredGallery latin1_toLowerCase latin1_trim '' fox'' fox_studio = Some [fox_item]
   \<and> \<not> claimed_hit latin1_toLowerCase '' fox'' fox_item
   \<and> filteredGallery latin1_toLowerCase latin1_trim ''512x512 noir'' fox_studio = Some []
   \<and> claimed_hit latin1_toLowerCase ''512x512 noir'' fox_item"
proof -
  have a: "filteredGallery latin1_toLowerCase latin1_trim '' fox'' fox_studio = Some [fox_item]"
    by (simp add: filteredGallery_def fox_studio_def fox_item_def item_matches_def latin1_trim_def
          latin1_space_def latin1_toLowerCase_def latin1_lower_def)
  have b: "\<not> claimed_hit latin1_toLowerCase '' fox'' fox_item"
    by (simp add: claimed_hit_def is_substring_iff fox_item_def
          latin1_toLowerCase_def latin1_lower_def)
  have c: "filteredGallery latin1_toLowerCase latin1_trim ''512x512 noir'' fox_studio = Some []"
    by (simp add: filteredGallery_def fox_studio_def fox_item_def item_matches_def latin1_trim_def
          latin1_space_def latin1_toLowerCase_def latin1_lower_def)
  have d: "claimed_hit latin1_toLowerCase ''512x512 noir'' fox_item"
    by (simp add: claimed_hit_def is_substring_iff fox_item_def
          latin1_toLowerCase_def latin1_lower_def)
  show ?thesis using a b c d by simp
qed

text \<open>
  The built-ins of the examples beyond ASCII: the capital \<open>E\<close> with acute accent (U+00C9)
  is lowered to U+00E9, and the no-break space (U+00A0) is trimmed and cuts a prompt.
\<close>

lemma latin1_examples:
  "latin1_toLowerCase [CHR ''C'', CHR ''A'', CHR ''F'', CHR 0xC9] = [CHR ''c'', CHR ''a'', CHR ''f'', CHR 0xE9]"
  "latin1_trim [CHR 0xA0, CHR ''f'', CHR ''o'', CHR ''x'', CHR 0xA0] = ''fox''"
  "split_ws latin1_space [CHR ''r'', CHR ''e'', CHR ''d'', CHR 0xA0, CHR ''f'', CHR ''o'', CHR ''x'']
     = [''red'', ''fox'']"
  by code_simp+

section \<open>Properties of the export overlay\<close>


















end
